theory Spec2Isabelle
  imports Complex_Main "HOL-Library.Word"
begin

section \<open>The traffic sign predictor of predict\_sign.py\<close>

text \<open>
  The class \<open>TrafficSignPredictor\<close> has two methods: the constructor, which loads a
  Keras model from a path and installs a fixed table of 43 category names, and
  \<open>predict_image\<close>, which decodes an image file, resizes it to 30 by 30, scales it,
  runs the model once and returns the index of the largest output, its label and its
  value.

  The third-party functions the class calls (\<open>os.path.exists\<close>,
  \<open>tf.keras.models.load_model\<close>, \<open>cv2.imread\<close>, \<open>cv2.resize\<close> and the model's
  \<open>predict\<close>) are parameters of the embedding; each of them may raise, which is a
  value \<open>Inl e\<close>. The two NumPy reductions \<open>np.argmax\<close> and \<open>np.max\<close> are written out
  from their documented behaviour. Python floats are read as real numbers: the only
  float arithmetic of the class is the division by 255.0, and the floats \<open>nan\<close> and
  \<open>inf\<close> have no counterpart here. The type \<open>exn\<close> stands for the subclasses of
  \<open>Exception\<close>, which is what these calls raise and what both handlers catch. The
  dialog of the constructor's handler and the \<open>print\<close> of the method's handler are
  recorded as effects and do not themselves raise.
\<close>

subsection \<open>Exceptions and effects\<close>

datatype exn =
    FileNotFoundError string
  | AttributeError string
  | ValueError string
  | LibraryError string

fun str_exn :: "exn \<Rightarrow> string" where
  "str_exn (FileNotFoundError msg) = msg"
| "str_exn (AttributeError msg) = msg"
| "str_exn (ValueError msg) = msg"
| "str_exn (LibraryError msg) = msg"

text \<open>
  The effects a call leaves behind besides its value: a call of
  \<open>tf.keras.models.load_model\<close>, a \<open>messagebox.showerror\<close> dialog (title and
  message), and a line printed on standard output.
\<close>

datatype event =
    LoadModel string
  | ShowError string string
  | Print string

subsection \<open>Data\<close>

text \<open>
  An image as \<open>cv2.imread\<close> returns it: rows of pixels of \<open>uint8\<close> channel values.
  The tensor given to the model is a batch of images of floats; the model answers with
  one row of floats for each image of the batch.
\<close>

type_synonym image = "8 word list list list"
type_synonym scaled_image = "real list list list"
type_synonym tensor = "scaled_image list"
type_synonym prediction = "real list list"
type_synonym keras_model = "tensor \<Rightarrow> exn + prediction"

text \<open>
  The instance: each attribute is absent until the constructor assigns it.
\<close>

record predictor =
  model :: "keras_model option"
  categories :: "(int \<rightharpoonup> string) option"

definition blank :: predictor where
  "blank = \<lparr>model = None, categories = None\<rparr>"

record environment =
  os_path_exists :: "string \<Rightarrow> bool"
  tf_load_model :: "string \<Rightarrow> exn + keras_model"
  cv2_imread :: "string \<Rightarrow> exn + image option"
  cv2_resize :: "image \<Rightarrow> nat \<times> nat \<Rightarrow> exn + image"

text \<open>The triple \<open>predict_image\<close> returns: the class index (\<open>None\<close> of Python is
  \<open>None\<close> here), the label and the confidence.\<close>

type_synonym result = "int option \<times> string \<times> real"

subsection \<open>The constructor\<close>

definition categories_list :: "(int \<times> string) list" where
  "categories_list =
    [(0, ''Speed limit (20km/h)''),
     (1, ''Speed limit (30km/h)''),
     (2, ''Speed limit (50km/h)''),
     (3, ''Speed limit (60km/h)''),
     (4, ''Speed limit (70km/h)''),
     (5, ''Speed limit (80km/h)''),
     (6, ''End of speed limit (80km/h)''),
     (7, ''Speed limit (100km/h)''),
     (8, ''Speed limit (120km/h)''),
     (9, ''No passing''),
     (10, ''No passing for vehicles over 3.5 tons''),
     (11, ''Right-of-way at next intersection''),
     (12, ''Priority road''),
     (13, ''Yield''),
     (14, ''Stop''),
     (15, ''No vehicles''),
     (16, ''Vehicles over 3.5 tons prohibited''),
     (17, ''No entry''),
     (18, ''General caution''),
     (19, ''Dangerous curve left''),
     (20, ''Dangerous curve right''),
     (21, ''Double curve''),
     (22, ''Bumpy road''),
     (23, ''Slippery road''),
     (24, ''Road narrows on the right''),
     (25, ''Road work''),
     (26, ''Traffic signals''),
     (27, ''Pedestrians''),
     (28, ''Children crossing''),
     (29, ''Bicycles crossing''),
     (30, ''Beware of ice/snow''),
     (31, ''Wild animals crossing''),
     (32, ''End of all speed and passing limits''),
     (33, ''Turn right ahead''),
     (34, ''Turn left ahead''),
     (35, ''Ahead only''),
     (36, ''Go straight or right''),
     (37, ''Go straight or left''),
     (38, ''Keep right''),
     (39, ''Keep left''),
     (40, ''Roundabout mandatory''),
     (41, ''End of no passing''),
     (42, ''End of no passing by vehicles over 3.5 tons'')]"

definition categories_table :: "int \<rightharpoonup> string" where
  "categories_table = map_of categories_list"

text \<open>\<open>d.get(key, default)\<close> of a Python dictionary.\<close>

definition dict_get :: "('k \<rightharpoonup> 'v) \<Rightarrow> 'k \<Rightarrow> 'v \<Rightarrow> 'v" where
  "dict_get d k dflt = (case d k of None \<Rightarrow> dflt | Some v \<Rightarrow> v)"

definition not_found_message :: "string \<Rightarrow> string" where
  "not_found_message model_path =
     ''Model file '' @ [CHR 0x27] @ model_path @ [CHR 0x27] @ '' not found''"

text \<open>
  \<open>__init__\<close>: the body of the \<open>try\<close> raises \<open>FileNotFoundError\<close> when the path does
  not exist, before \<open>load_model\<close> is called; otherwise it assigns \<open>self.model\<close> and then
  \<open>self.categories\<close>. The handler shows a dialog and raises the exception again. The
  result is the exception raised (if any), the instance afterwards and the effects.
\<close>

definition init_handler :: "exn \<Rightarrow> event" where
  "init_handler e = ShowError ''Error'' (''Failed to load model: '' @ str_exn e)"

definition init :: "environment \<Rightarrow> predictor \<Rightarrow> string \<Rightarrow> exn option \<times> predictor \<times> event list" where
  "init env self model_path =
     (if \<not> os_path_exists env model_path then
        (let e = FileNotFoundError (not_found_message model_path)
         in (Some e, self, [init_handler e]))
      else
        (case tf_load_model env model_path of
           Inl e \<Rightarrow> (Some e, self, [LoadModel model_path, init_handler e])
         | Inr m \<Rightarrow>
             (None, self\<lparr>model := Some m, categories := Some categories_table\<rparr>,
              [LoadModel model_path])))"

subsection \<open>NumPy's reductions\<close>

text \<open>
  \<open>np.argmax\<close> without an axis works on the flattened array and returns the index of
  the first occurrence of the maximum; \<open>np.max\<close> returns the maximum. Both raise
  \<open>ValueError\<close> on an array without elements.
\<close>

fun argmax_scan :: "real list \<Rightarrow> nat \<Rightarrow> nat \<Rightarrow> real \<Rightarrow> nat" where
  "argmax_scan [] i best_i best = best_i"
| "argmax_scan (x # xs) i best_i best =
     (if best < x then argmax_scan xs (Suc i) i x
      else argmax_scan xs (Suc i) best_i best)"

definition np_argmax :: "prediction \<Rightarrow> exn + int" where
  "np_argmax a =
     (case concat a of
        [] \<Rightarrow> Inl (ValueError ''attempt to get argmax of an empty sequence'')
      | x # xs \<Rightarrow> Inr (int (argmax_scan xs 1 0 x)))"

definition np_max :: "prediction \<Rightarrow> exn + real" where
  "np_max a =
     (case concat a of
        [] \<Rightarrow> Inl (ValueError ''zero-size array to reduction operation maximum which has no identity'')
      | x # xs \<Rightarrow> Inr (fold max xs x))"

subsection \<open>predict\_image\<close>

text \<open>The source's variable \<open>image\<close> is written \<open>img\<close>. Line 79, \<open>image / 255.0\<close>, and line 80, \<open>np.expand_dims(image, axis=0)\<close>.\<close>

definition divide_255 :: "image \<Rightarrow> scaled_image" where
  "divide_255 img = map (map (map (\<lambda>v. real (unat v) / 255))) img"

definition expand_dims :: "scaled_image \<Rightarrow> tensor" where
  "expand_dims img = [img]"

text \<open>Lines 78 to 80: resize to (30, 30), scale, make a batch.\<close>

definition preprocess :: "environment \<Rightarrow> image \<Rightarrow> exn + tensor" where
  "preprocess env img =
     (case cv2_resize env img (30, 30) of
        Inl e \<Rightarrow> Inl e
      | Inr resized \<Rightarrow> Inr (expand_dims (divide_255 resized)))"

text \<open>Line 82: \<open>self.model.predict(image)\<close>.\<close>

definition infer :: "predictor \<Rightarrow> tensor \<Rightarrow> exn + prediction" where
  "infer self batch =
     (case model self of
        None \<Rightarrow> Inl (AttributeError ''model'')
      | Some m \<Rightarrow> m batch)"

text \<open>Lines 83 to 86: the index of the maximum, the maximum, and the returned triple.\<close>

definition decide :: "predictor \<Rightarrow> prediction \<Rightarrow> exn + result" where
  "decide self prediction =
     (case np_argmax prediction of
        Inl e \<Rightarrow> Inl e
      | Inr predicted_class \<Rightarrow>
          (case np_max prediction of
             Inl e \<Rightarrow> Inl e
           | Inr confidence \<Rightarrow>
               (case categories self of
                  None \<Rightarrow> Inl (AttributeError ''categories'')
                | Some c \<Rightarrow>
                    Inr (Some predicted_class,
                         dict_get c predicted_class ''Unknown'',
                         confidence))))"

text \<open>Lines 78 to 86 for a decoded image.\<close>

definition classify_steps :: "environment \<Rightarrow> predictor \<Rightarrow> image \<Rightarrow> exn + result" where
  "classify_steps env self img =
     (case preprocess env img of
        Inl e \<Rightarrow> Inl e
      | Inr batch \<Rightarrow>
          (case infer self batch of
             Inl e \<Rightarrow> Inl e
           | Inr prediction \<Rightarrow> decide self prediction))"

text \<open>The body of the \<open>try\<close>, lines 74 to 86.\<close>

definition predict_image_try :: "environment \<Rightarrow> predictor \<Rightarrow> string \<Rightarrow> exn + result" where
  "predict_image_try env self image_path =
     (case cv2_imread env image_path of
        Inl e \<Rightarrow> Inl e
      | Inr None \<Rightarrow> Inr (None, ''Invalid image'', 0)
      | Inr (Some img) \<Rightarrow> classify_steps env self img)"

text \<open>
  The method: the handler of line 88 prints the exception and returns the failure
  triple. The result is the returned triple, the instance afterwards and the effects.
\<close>

definition predict_image :: "environment \<Rightarrow> predictor \<Rightarrow> string \<Rightarrow> result \<times> predictor \<times> event list" where
  "predict_image env self image_path =
     (case predict_image_try env self image_path of
        Inr r \<Rightarrow> (r, self, [])
      | Inl e \<Rightarrow>
          ((None, ''Prediction failed'', 0), self,
           [Print (''Prediction error: '' @ str_exn e)]))"

text \<open>Accessors of what a call leaves and of the returned triple.\<close>

definition raised :: "exn option \<times> predictor \<times> event list \<Rightarrow> exn option" where
  "raised out = fst out"

definition returned :: "result \<times> predictor \<times> event list \<Rightarrow> result" where
  "returned out = fst out"

definition self_after :: "'a \<times> predictor \<times> event list \<Rightarrow> predictor" where
  "self_after out = fst (snd out)"

definition effects :: "'a \<times> predictor \<times> event list \<Rightarrow> event list" where
  "effects out = snd (snd out)"

definition class_index :: "result \<Rightarrow> int option" where
  "class_index r = fst r"

definition label :: "result \<Rightarrow> string" where
  "label r = fst (snd r)"

definition confidence :: "result \<Rightarrow> real" where
  "confidence r = snd (snd r)"

subsection \<open>Properties the statements below are written with\<close>

text \<open>
  The index of the maximum of a vector with ties broken by the lowest index: \<open>r\<close> is
  in range, no entry is larger than entry \<open>r\<close>, and every entry before \<open>r\<close> is
  strictly smaller.
\<close>

definition first_max :: "real list \<Rightarrow> nat \<Rightarrow> bool" where
  "first_max zs r \<longleftrightarrow>
     r < length zs \<and> (\<forall>j<length zs. zs ! j \<le> zs ! r) \<and> (\<forall>j<r. zs ! j < zs ! r)"

text \<open>
  The output the model artifact is described with: for a batch of one image, one row
  of 43 class probabilities.
\<close>

definition probabilities_43 :: "prediction \<Rightarrow> bool" where
  "probabilities_43 p =
     (case p of
        [row] \<Rightarrow> length row = 43 \<and> list_all (\<lambda>x. 0 \<le> x \<and> x \<le> 1) row
      | _ \<Rightarrow> False)"

text \<open>An array of 30 rows of 30 pixels, and a scaled image with every channel in [0, 1].\<close>

definition shape_30_30 :: "'a list list \<Rightarrow> bool" where
  "shape_30_30 x \<longleftrightarrow> length x = 30 \<and> list_all (\<lambda>row. length row = 30) x"

definition unit_range :: "scaled_image \<Rightarrow> bool" where
  "unit_range x \<longleftrightarrow> list_all (list_all (list_all (\<lambda>v. 0 \<le> v \<and> v \<le> 1))) x"

subsection \<open>A concrete environment\<close>

text \<open>
  One world to run the class in: the model file \<open>best_model.h5\<close> exists and loads to a
  model that answers every batch with 0.95 for class 14 and 0.05 for class 3; the file
  \<open>stop.png\<close> decodes to a single red pixel (blue, green, red); every other image path
  fails to decode; resizing repeats the first pixel. A second model raises on every
  input, and a second world differs from the first only in what exists on disk. A third
  world loads a model with 44 outputs whose last output, 2, is the largest.
\<close>

definition stop_probs :: "real list" where
  "stop_probs =
     [0, 0, 0, 5 / 100, 0, 0, 0, 0, 0, 0,
      0, 0, 0, 0, 95 / 100, 0, 0, 0, 0, 0,
      0, 0, 0, 0, 0, 0, 0, 0, 0, 0,
      0, 0, 0, 0, 0, 0, 0, 0, 0, 0,
      0, 0, 0]"

definition demo_model :: keras_model where
  "demo_model batch = Inr [stop_probs]"

definition wide_model :: keras_model where
  "wide_model batch = Inr [stop_probs @ [2]]"


definition demo_image :: image where
  "demo_image = [[[0, 0, 255]]]"

definition demo_resize :: "image \<Rightarrow> nat \<times> nat \<Rightarrow> exn + image" where
  "demo_resize img dsize =
     (case img of
        (px # _) # _ \<Rightarrow> Inr (replicate (snd dsize) (replicate (fst dsize) px))
      | _ \<Rightarrow> Inl (LibraryError ''empty image''))"

definition demo_env :: environment where
  "demo_env =
     \<lparr>os_path_exists = (\<lambda>p. p = ''best_model.h5''),
      tf_load_model = (\<lambda>p. Inr demo_model),
      cv2_imread = (\<lambda>p. if p = ''stop.png'' then Inr (Some demo_image) else Inr None),
      cv2_resize = demo_resize\<rparr>"

definition other_env :: environment where
  "other_env = demo_env\<lparr>os_path_exists := (\<lambda>p. False)\<rparr>"

definition wide_env :: environment where
  "wide_env = demo_env\<lparr>tf_load_model := (\<lambda>p. Inr wide_model)\<rparr>"

definition demo_self :: predictor where
  "demo_self = \<lparr>model = Some demo_model, categories = Some categories_table\<rparr>"

definition wide_self :: predictor where
  "wide_self = \<lparr>model = Some wide_model, categories = Some categories_table\<rparr>"


definition demo_resized :: image where
  "demo_resized = replicate 30 (replicate 30 [0, 0, 255])"

definition demo_batch :: tensor where
  "demo_batch = [replicate 30 (replicate 30 [0, 0, 1])]"


section \<open>Facts about the parts\<close>

subsection \<open>The scan finds the first maximum\<close>

lemma first_max_snoc_greater:
  assumes "first_max ys b" and "ys ! b < x"
  shows "first_max (ys @ [x]) (length ys)"
  using assms unfolding first_max_def
  by (auto simp: nth_append less_Suc_eq intro: le_less_trans)

lemma first_max_snoc_keep:
  assumes "first_max ys b" and "\<not> ys ! b < x"
  shows "first_max (ys @ [x]) b"
  using assms unfolding first_max_def
  by (auto simp: nth_append less_Suc_eq)

text \<open>
  The invariant of the scan: \<open>ys\<close> is what has been read, \<open>b\<close> its first maximum; after
  reading \<open>xs\<close> too, the scan holds the first maximum of \<open>ys @ xs\<close>.
\<close>

lemma argmax_scan_first_max:
  "first_max ys b \<Longrightarrow> first_max (ys @ xs) (argmax_scan xs (length ys) b (ys ! b))"
proof (induction xs arbitrary: ys b)
  case Nil
  then show ?case by simp
next
  case (Cons x xs)
  have b: "b < length ys" using Cons.prems by (simp add: first_max_def)
  show ?case
  proof (cases "ys ! b < x")
    case True
    from first_max_snoc_greater [OF Cons.prems True]
    have "first_max ((ys @ [x]) @ xs)
        (argmax_scan xs (length (ys @ [x])) (length ys) ((ys @ [x]) ! length ys))"
      by (rule Cons.IH)
    with True show ?thesis by simp
  next
    case False
    from first_max_snoc_keep [OF Cons.prems False]
    have "first_max ((ys @ [x]) @ xs) (argmax_scan xs (length (ys @ [x])) b ((ys @ [x]) ! b))"
      by (rule Cons.IH)
    with False b show ?thesis by (simp add: nth_append)
  qed
qed

lemma first_max_singleton: "first_max [x] 0"
  by (simp add: first_max_def)

lemma argmax_scan_start: "first_max (x # xs) (argmax_scan xs 1 0 x)"
  using argmax_scan_first_max [OF first_max_singleton, of x xs] by simp

lemma first_max_Max:
  assumes "first_max zs r"
  shows "zs ! r = Max (set zs)"
proof (rule sym, rule Max_eqI)
  show "finite (set zs)" by simp
  show "zs ! r \<in> set zs" using assms by (simp add: first_max_def)
  fix y assume "y \<in> set zs"
  then obtain j where "j < length zs" "zs ! j = y" by (auto simp: in_set_conv_nth)
  with assms show "y \<le> zs ! r" by (auto simp: first_max_def)
qed

lemma fold_max_Max: "fold max xs x = Max (set (x # xs))"
  using Max.set_eq_fold [of x xs] by simp

subsection \<open>The label table\<close>

lemma categories_keys: "map fst categories_list = [0..42]"
  by (simp add: categories_list_def upto.simps)

lemma categories_dom: "dom categories_table = {0..42}"
proof -
  have "dom categories_table = set (map fst categories_list)"
    by (simp add: categories_table_def dom_map_of_conv_image_fst)
  also have "\<dots> = {0..42}"
    by (simp only: categories_keys set_upto)
  finally show ?thesis .
qed

lemma categories_in_range:
  assumes "0 \<le> k" and "k \<le> 42"
  shows "categories_table k = Some (dict_get categories_table k dflt)"
proof -
  from assms have "k \<in> dom categories_table" by (simp add: categories_dom)
  then obtain l where "categories_table k = Some l" by blast
  then show ?thesis by (simp add: dict_get_def)
qed

lemma categories_out_of_range:
  assumes "k < 0 \<or> 42 < k"
  shows "dict_get categories_table k dflt = dflt"
proof -
  from assms have "k \<notin> dom categories_table" by (auto simp: categories_dom)
  then have "categories_table k = None" by blast
  then show ?thesis by (simp add: dict_get_def)
qed

lemma categories_ran:
  assumes "categories_table k = Some l"
  shows "l \<noteq> ''Invalid image'' \<and> l \<noteq> ''Prediction failed''"
proof -
  from assms have "(k, l) \<in> set categories_list"
    by (simp add: categories_table_def map_of_SomeD)
  then show ?thesis
    by (auto simp: categories_list_def)
qed

lemma table_label_not_error:
  "dict_get categories_table k ''Unknown'' \<noteq> ''Invalid image''
   \<and> dict_get categories_table k ''Unknown'' \<noteq> ''Prediction failed''"
proof (cases "categories_table k")
  case None
  then show ?thesis by (simp add: dict_get_def)
next
  case (Some l)
  with categories_ran [OF Some] show ?thesis by (simp add: dict_get_def)
qed

subsection \<open>The constructor\<close>

lemma init_success:
  assumes "init env self0 model_path = (None, self, evs)"
  shows "os_path_exists env model_path
    \<and> (\<exists>m. tf_load_model env model_path = Inr m \<and> model self = Some m)
    \<and> categories self = Some categories_table"
  using assms
  by (auto simp: init_def Let_def split: if_splits sum.splits)

text \<open>A file that exists and does not load: the exception of \<open>load_model\<close> is raised
  again and nothing is assigned.\<close>

lemma init_load_error:
  assumes "os_path_exists env model_path" and "tf_load_model env model_path = Inl e"
  shows "raised (init env self model_path) = Some e
    \<and> self_after (init env self model_path) = self"
  using assms by (simp add: init_def raised_def self_after_def)

subsection \<open>Scaling\<close>

lemma unit_fraction: "0 \<le> (x::real) \<Longrightarrow> x \<le> 255 \<Longrightarrow> 0 \<le> x / 255 \<and> x / 255 \<le> 1"
  by simp

lemma scale_channel: "0 \<le> real (unat (v :: 8 word)) / 255 \<and> real (unat v) / 255 \<le> 1"
proof (rule unit_fraction)
  show "0 \<le> real (unat v)" by (rule of_nat_0_le_iff)
  have "unat v < 2 ^ LENGTH(8)" by (rule unsigned_less)
  then have "unat v \<le> 255" by simp
  then show "real (unat v) \<le> 255" by linarith
qed

lemma divide_255_unit_range: "unit_range (divide_255 img)"
proof -
  have px: "list_all (\<lambda>v. 0 \<le> v \<and> v \<le> 1) (map (\<lambda>v. real (unat v) / 255) px)"
    for px :: "8 word list"
    unfolding list_all_iff using scale_channel by auto
  have row: "list_all (list_all (\<lambda>v. 0 \<le> v \<and> v \<le> 1))
      (map (map (\<lambda>v. real (unat v) / 255)) row)"
    for row :: "8 word list list"
    unfolding list_all_iff [of _ "map (map _) _"] using px by auto
  show ?thesis
    unfolding unit_range_def divide_255_def list_all_iff [of _ "map (map (map _)) _"]
    using row by auto
qed

lemma divide_255_shape: "shape_30_30 img \<Longrightarrow> shape_30_30 (divide_255 img)"
  by (simp add: shape_30_30_def divide_255_def list_all_iff)

subsection \<open>The decision and the method\<close>

lemma decide_row:
  assumes "categories self = Some c" and "row \<noteq> []"
  shows "\<exists>i. first_max row i
    \<and> decide self [row] = Inr (Some (int i), dict_get c (int i) ''Unknown'', row ! i)"
proof -
  from assms(2) obtain x xs where row: "row = x # xs" by (cases row) auto
  let ?i = "argmax_scan xs 1 0 x"
  have fm: "first_max row ?i" unfolding row by (rule argmax_scan_start)
  have "fold max xs x = row ! ?i"
    using first_max_Max [OF fm] by (simp add: row fold_max_Max)
  then have "decide self [row] = Inr (Some (int ?i), dict_get c (int ?i) ''Unknown'', row ! ?i)"
    by (simp add: decide_def np_argmax_def np_max_def row assms(1))
  with fm show ?thesis by blast
qed

lemma decide_Inr:
  assumes "decide self p = Inr r"
  shows "\<exists>k c conf. categories self = Some c \<and> r = (Some k, dict_get c k ''Unknown'', conf)"
  using assms by (auto simp: decide_def split: sum.splits option.splits)

lemma predict_image_decoded:
  assumes "cv2_imread env image_path = Inr (Some img)"
    and "preprocess env img = Inr batch"
    and "infer self batch = Inr p"
  shows "predict_image_try env self image_path = decide self p"
  using assms by (simp add: predict_image_try_def classify_steps_def)

lemma returned_ok:
  "predict_image_try env self image_path = Inr r \<Longrightarrow>
   returned (predict_image env self image_path) = r"
  by (simp add: predict_image_def returned_def)

text \<open>What a failure of lines 78 to 86 is: the resize raises, or the model (or the
  read of \<open>self.model\<close>) raises, or the decision raises.\<close>

lemma classify_steps_raises:
  "classify_steps env self img = Inl e \<longleftrightarrow>
     preprocess env img = Inl e
     \<or> (\<exists>batch. preprocess env img = Inr batch \<and> infer self batch = Inl e)
     \<or> (\<exists>batch p. preprocess env img = Inr batch \<and> infer self batch = Inr p
           \<and> decide self p = Inl e)"
  by (auto simp: classify_steps_def split: sum.splits)

text \<open>A model that answers with no number at all makes \<open>np.argmax\<close> raise.\<close>

lemma decide_empty: "\<exists>e. decide self [[]] = Inl e"
  by (simp add: decide_def np_argmax_def)

subsection \<open>The concrete environment\<close>

lemma demo_init:
  "init demo_env blank ''best_model.h5'' = (None, demo_self, [LoadModel ''best_model.h5''])"
  by (simp add: init_def demo_env_def blank_def demo_self_def)

lemma demo_decoded: "cv2_imread demo_env ''stop.png'' = Inr (Some demo_image)"
  by (simp add: demo_env_def)

lemma demo_resize_30: "cv2_resize demo_env demo_image (30, 30) = Inr demo_resized"
  by (simp add: demo_env_def demo_resize_def demo_image_def demo_resized_def)

lemma demo_resized_shape: "shape_30_30 demo_resized"
  by (simp add: shape_30_30_def demo_resized_def list_all_iff)

lemma demo_preprocess: "preprocess demo_env demo_image = Inr demo_batch"
  by (simp add: preprocess_def demo_resize_30 demo_resized_def divide_255_def expand_dims_def
      demo_batch_def)

lemma demo_infer: "infer demo_self demo_batch = Inr [stop_probs]"
  by (simp add: infer_def demo_self_def demo_model_def)

lemma demo_probabilities: "probabilities_43 [stop_probs]"
  by (simp add: probabilities_43_def stop_probs_def)


lemma demo_categories: "categories demo_self = Some categories_table"
  by (simp add: demo_self_def)

lemma demo_model_attr: "model demo_self = Some demo_model"
  by (simp add: demo_self_def)

lemma demo_missing: "cv2_imread demo_env ''missing.png'' = Inr None"
  by (simp add: demo_env_def)


lemma other_imread: "cv2_imread demo_env ''stop.png'' = cv2_imread other_env ''stop.png''"
  by (simp add: other_env_def)

lemma other_resize: "cv2_resize demo_env = cv2_resize other_env"
  by (simp add: other_env_def)

lemma demo_no_model_file: "\<not> os_path_exists demo_env ''missing.h5''"
  by (simp add: demo_env_def)

text \<open>The stop sign: class 14 with confidence 0.95 gives 14, \<open>Stop\<close> and 0.95.\<close>

lemma stop_sign_scenario:
  "returned (predict_image demo_env demo_self ''stop.png'') = (Some 14, ''Stop'', 95 / 100)"
  by (simp add: returned_def predict_image_def predict_image_try_def demo_decoded
      classify_steps_def demo_preprocess demo_infer decide_def np_argmax_def np_max_def
      stop_probs_def demo_categories dict_get_def categories_table_def categories_list_def)

text \<open>The third world: the constructor accepts the model with 44 outputs.\<close>

lemma wide_init:
  "init wide_env blank ''best_model.h5'' = (None, wide_self, [LoadModel ''best_model.h5''])"
  by (simp add: init_def wide_env_def demo_env_def blank_def wide_self_def)

lemma wide_decoded: "cv2_imread wide_env ''stop.png'' = Inr (Some demo_image)"
  by (simp add: wide_env_def demo_env_def)

lemma wide_preprocess: "preprocess wide_env demo_image = Inr demo_batch"
  using demo_preprocess by (simp add: preprocess_def wide_env_def)

lemma wide_try:
  "predict_image_try wide_env wide_self ''stop.png'' = Inr (Some 43, ''Unknown'', 2)"
  by (simp add: predict_image_try_def wide_decoded classify_steps_def wide_preprocess
      infer_def wide_self_def wide_model_def decide_def np_argmax_def np_max_def
      stop_probs_def dict_get_def categories_table_def categories_list_def)

lemma table_no_43: "categories_table 43 = None"
  by (simp add: categories_table_def categories_list_def)


section \<open>The claims\<close>

text \<open>
  Claim C1, amended. The method checks neither the width nor the range of the model's
  answer, so the bounds hold for the models the data model describes and not for every
  model the constructor loads. For an instance the constructor has built, an image that
  decodes and is resized, and a model that answers the batch with one row of 43 values
  between 0 and 1, \<open>predict_image\<close> returns a class index between 0 and 42, a
  confidence between 0 and 1, and the label the table holds for that index.
\<close>

theorem predict_image_in_range:
  assumes "init env self0 model_path = (None, self, evs)"
    and "cv2_imread env image_path = Inr (Some img)"
    and "preprocess env img = Inr batch"
    and "infer self batch = Inr p"
    and "probabilities_43 p"
  shows "\<exists>k l c. returned (predict_image env self image_path) = (Some k, l, c)
    \<and> 0 \<le> k \<and> k \<le> 42 \<and> 0 \<le> c \<and> c \<le> 1 \<and> categories_table k = Some l"
proof -
  from assms(5) obtain row where p: "p = [row]" and len: "length row = 43"
    and rng: "\<forall>x\<in>set row. 0 \<le> x \<and> x \<le> 1"
    by (auto simp: probabilities_43_def list_all_iff split: list.splits)
  from len have ne: "row \<noteq> []" by auto
  have cat: "categories self = Some categories_table"
    using init_success [OF assms(1)] by simp
  from decide_row [OF cat ne] obtain i where
    fm: "first_max row i" and
    d: "decide self [row] =
          Inr (Some (int i), dict_get categories_table (int i) ''Unknown'', row ! i)"
    by blast
  have i: "i < 43" using fm len by (simp add: first_max_def)
  then have "row ! i \<in> set row" using len by simp
  with rng have c: "0 \<le> row ! i \<and> row ! i \<le> 1" by blast
  from i have l: "categories_table (int i) =
      Some (dict_get categories_table (int i) ''Unknown'')"
    by (intro categories_in_range) simp_all
  have "predict_image_try env self image_path = decide self [row]"
    using assms(2-4) unfolding p by (rule predict_image_decoded)
  with d have "returned (predict_image env self image_path) =
      (Some (int i), dict_get categories_table (int i) ''Unknown'', row ! i)"
    by (simp add: returned_ok)
  with i c l show ?thesis by auto
qed

theorem predict_image_in_range_witness:
  "init demo_env blank ''best_model.h5'' = (None, demo_self, [LoadModel ''best_model.h5''])
   \<and> cv2_imread demo_env ''stop.png'' = Inr (Some demo_image)
   \<and> preprocess demo_env demo_image = Inr demo_batch
   \<and> infer demo_self demo_batch = Inr [stop_probs]
   \<and> probabilities_43 [stop_probs]
   \<and> (\<exists>k l c. returned (predict_image demo_env demo_self ''stop.png'') = (Some k, l, c)
        \<and> 0 \<le> k \<and> k \<le> 42 \<and> 0 \<le> c \<and> c \<le> 1 \<and> categories_table k = Some l)"
  by (intro conjI demo_init demo_decoded demo_preprocess demo_infer demo_probabilities
      predict_image_in_range [OF demo_init demo_decoded demo_preprocess demo_infer
        demo_probabilities])

text \<open>
  Claim C1 as first stated, for every image that decodes and is classified without
  error, fails in the third world: the constructor succeeds, the image decodes and the
  call raises nothing, and the method returns the index 43, which the table does not
  hold, the label \<open>Unknown\<close> and the confidence 2.
\<close>

theorem predict_image_in_range_counterexample:
  "init wide_env blank ''best_model.h5'' = (None, wide_self, [LoadModel ''best_model.h5''])
   \<and> cv2_imread wide_env ''stop.png'' = Inr (Some demo_image)
   \<and> predict_image_try wide_env wide_self ''stop.png'' = Inr (Some 43, ''Unknown'', 2)
   \<and> predict_image wide_env wide_self ''stop.png'' = ((Some 43, ''Unknown'', 2), wide_self, [])
   \<and> \<not> (43 \<le> (42::int))
   \<and> \<not> (2 \<le> (1::real))
   \<and> categories_table 43 = None"
  using wide_init wide_decoded wide_try table_no_43
  by (simp add: predict_image_def)

text \<open>
  Claim C2. For a path that \<open>cv2.imread\<close> cannot decode (it returns \<open>None\<close>: a missing
  file, an unsupported format or corrupt data), \<open>predict_image\<close> returns no class
  index, the label \<open>Invalid image\<close> and the confidence 0.0, whatever the instance.
\<close>

theorem predict_image_invalid:
  assumes "cv2_imread env image_path = Inr None"
  shows "returned (predict_image env self image_path) = (None, ''Invalid image'', 0)"
  using assms by (simp add: predict_image_def predict_image_try_def returned_def)

theorem predict_image_invalid_witness:
  "cv2_imread demo_env ''missing.png'' = Inr None
   \<and> returned (predict_image demo_env demo_self ''missing.png'') = (None, ''Invalid image'', 0)"
  by (intro conjI demo_missing predict_image_invalid [OF demo_missing])





text \<open>
  Claim C5. \<open>predict_image\<close> is deterministic: two calls on the same instance (the
  same loaded model) in two worlds where the path decodes to the same image and the
  resize is the same function return the same class index and the same confidence (and
  the same label). Nothing else of the world is read.
\<close>

theorem predict_image_deterministic:
  assumes "cv2_imread env1 image_path = cv2_imread env2 image_path"
    and "cv2_resize env1 = cv2_resize env2"
  shows "class_index (returned (predict_image env1 self image_path)) =
           class_index (returned (predict_image env2 self image_path))
       \<and> confidence (returned (predict_image env1 self image_path)) =
           confidence (returned (predict_image env2 self image_path))
       \<and> label (returned (predict_image env1 self image_path)) =
           label (returned (predict_image env2 self image_path))"
proof -
  have "preprocess env1 = preprocess env2"
    using assms(2) by (simp add: preprocess_def fun_eq_iff)
  then have "classify_steps env1 self = classify_steps env2 self"
    by (simp add: classify_steps_def fun_eq_iff)
  then have "predict_image_try env1 self image_path = predict_image_try env2 self image_path"
    using assms(1) by (simp add: predict_image_try_def split: sum.splits option.splits)
  then show ?thesis by (simp add: predict_image_def)
qed

theorem predict_image_deterministic_witness:
  "cv2_imread demo_env ''stop.png'' = cv2_imread other_env ''stop.png''
   \<and> cv2_resize demo_env = cv2_resize other_env
   \<and> class_index (returned (predict_image demo_env demo_self ''stop.png'')) =
       class_index (returned (predict_image other_env demo_self ''stop.png''))
   \<and> confidence (returned (predict_image demo_env demo_self ''stop.png'')) =
       confidence (returned (predict_image other_env demo_self ''stop.png''))
   \<and> label (returned (predict_image demo_env demo_self ''stop.png'')) =
       label (returned (predict_image other_env demo_self ''stop.png''))"
  using predict_image_deterministic [OF other_imread other_resize, of demo_self]
    other_imread other_resize
  by blast

text \<open>
  Claim C6. The label table the constructor installs has every index from 0 to 42 in
  its domain, and the lookup with default of an index outside 0 to 42 gives the label
  \<open>Unknown\<close>.
\<close>

theorem label_table_domain:
  assumes "init env self0 model_path = (None, self, evs)"
  shows "\<exists>c. categories self = Some c
    \<and> (0 \<le> k \<and> k \<le> 42 \<longrightarrow> k \<in> dom c)
    \<and> (k < 0 \<or> 42 < k \<longrightarrow> dict_get c k ''Unknown'' = ''Unknown'')"
proof -
  have "categories self = Some categories_table"
    using init_success [OF assms] by simp
  moreover have "0 \<le> k \<and> k \<le> 42 \<longrightarrow> k \<in> dom categories_table"
    by (simp add: categories_dom)
  moreover have "k < 0 \<or> 42 < k \<longrightarrow> dict_get categories_table k ''Unknown'' = ''Unknown''"
    using categories_out_of_range by blast
  ultimately show ?thesis by blast
qed

theorem label_table_domain_witness:
  "init demo_env blank ''best_model.h5'' = (None, demo_self, [LoadModel ''best_model.h5''])
   \<and> (\<exists>c. categories demo_self = Some c \<and> 14 \<in> dom c
        \<and> dict_get c 43 ''Unknown'' = ''Unknown'')"
  using label_table_domain [OF demo_init, of 14] label_table_domain [OF demo_init, of 43]
    demo_init
  by auto

text \<open>
  Claim C7. Constructing with a path that does not exist raises \<open>FileNotFoundError\<close>
  (the condition the specification calls ModelNotFound); \<open>load_model\<close> is not called,
  the only effect is the error dialog, and the instance is as it was: neither a model
  nor a label table is assigned.
\<close>

theorem init_model_not_found:
  assumes "\<not> os_path_exists env model_path"
  shows "raised (init env self model_path) =
           Some (FileNotFoundError (not_found_message model_path))
       \<and> self_after (init env self model_path) = self
       \<and> effects (init env self model_path) =
           [ShowError ''Error'' (''Failed to load model: '' @ not_found_message model_path)]"
  using assms
  by (simp add: init_def Let_def init_handler_def raised_def self_after_def effects_def)

theorem init_model_not_found_witness:
  "\<not> os_path_exists demo_env ''missing.h5''
   \<and> raised (init demo_env blank ''missing.h5'') =
       Some (FileNotFoundError (not_found_message ''missing.h5''))
   \<and> model (self_after (init demo_env blank ''missing.h5'')) = None
   \<and> categories (self_after (init demo_env blank ''missing.h5'')) = None
   \<and> effects (init demo_env blank ''missing.h5'') =
       [ShowError ''Error'' (''Failed to load model: '' @ not_found_message ''missing.h5'')]"
  using init_model_not_found [OF demo_no_model_file, of blank] demo_no_model_file
  by (simp add: blank_def)

text \<open>
  Claim C8. For a decoded image, \<open>predict_image\<close> asks \<open>cv2.resize\<close> for 30 by 30
  pixels, divides every channel value by 255, which puts it in [0, 1], and gives the
  model a batch that holds this one image: when the resize returns what it was asked
  for, the model is called on one image of 30 rows of 30 pixels.
\<close>

theorem preprocess_batch:
  assumes "cv2_imread env image_path = Inr (Some img)"
    and "cv2_resize env img (30, 30) = Inr resized"
    and "shape_30_30 resized"
    and "model self = Some m"
  shows "\<exists>scaled. preprocess env img = Inr [scaled]
    \<and> scaled = map (map (map (\<lambda>v. real (unat v) / 255))) resized
    \<and> shape_30_30 scaled \<and> unit_range scaled
    \<and> predict_image_try env self image_path =
        (case m [scaled] of Inl e \<Rightarrow> Inl e | Inr p \<Rightarrow> decide self p)"
proof -
  let ?scaled = "divide_255 resized"
  have pre: "preprocess env img = Inr [?scaled]"
    using assms(2) by (simp add: preprocess_def expand_dims_def)
  have "predict_image_try env self image_path =
      (case m [?scaled] of Inl e \<Rightarrow> Inl e | Inr p \<Rightarrow> decide self p)"
    using assms(1,4) pre by (simp add: predict_image_try_def classify_steps_def infer_def)
  with pre divide_255_shape [OF assms(3)] divide_255_unit_range [of resized]
  show ?thesis by (auto simp: divide_255_def)
qed

theorem preprocess_batch_witness:
  "cv2_imread demo_env ''stop.png'' = Inr (Some demo_image)
   \<and> cv2_resize demo_env demo_image (30, 30) = Inr demo_resized
   \<and> shape_30_30 demo_resized
   \<and> model demo_self = Some demo_model
   \<and> (\<exists>scaled. preprocess demo_env demo_image = Inr [scaled]
        \<and> scaled = map (map (map (\<lambda>v. real (unat v) / 255))) demo_resized
        \<and> shape_30_30 scaled \<and> unit_range scaled
        \<and> predict_image_try demo_env demo_self ''stop.png'' =
            (case demo_model [scaled] of Inl e \<Rightarrow> Inl e | Inr p \<Rightarrow> decide demo_self p))"
  by (intro conjI demo_decoded demo_resize_30 demo_resized_shape demo_model_attr
      preprocess_batch [OF demo_decoded demo_resize_30 demo_resized_shape demo_model_attr])

text \<open>
  Claim C9. A call of \<open>predict_image\<close> leaves the instance as it was: the model and the
  label table after the call are those before it, on every path and in every world.
\<close>

theorem predict_image_frame:
  "self_after (predict_image env self image_path) = self"
  by (simp add: predict_image_def self_after_def split: sum.splits)

text \<open>
  Claim C10. For an instance the constructor has built, the class index that
  \<open>predict_image\<close> returns is absent exactly when the label is \<open>Invalid image\<close> or
  \<open>Prediction failed\<close>: no label of the table and not the default \<open>Unknown\<close> is one of
  the two.
\<close>

theorem class_index_absent_iff_error_label:
  assumes "init env self0 model_path = (None, self, evs)"
  shows "class_index (returned (predict_image env self image_path)) = None \<longleftrightarrow>
         label (returned (predict_image env self image_path)) = ''Invalid image''
       \<or> label (returned (predict_image env self image_path)) = ''Prediction failed''"
proof (cases "predict_image_try env self image_path")
  case (Inl e)
  then show ?thesis
    by (simp add: predict_image_def returned_def class_index_def label_def)
next
  case (Inr r)
  have cat: "categories self = Some categories_table"
    using init_success [OF assms] by simp
  have ret: "returned (predict_image env self image_path) = r"
    using Inr by (rule returned_ok)
  show ?thesis
  proof (cases "r = (None, ''Invalid image'', 0)")
    case True
    with ret show ?thesis by (simp add: class_index_def label_def)
  next
    case False
    with Inr obtain p where "decide self p = Inr r"
      by (auto simp: predict_image_try_def classify_steps_def split: sum.splits option.splits)
    from decide_Inr [OF this] cat obtain k conf where
      "r = (Some k, dict_get categories_table k ''Unknown'', conf)" by auto
    with ret table_label_not_error [of k] show ?thesis
      by (simp add: class_index_def label_def)
  qed
qed

theorem class_index_absent_iff_error_label_witness:
  "init demo_env blank ''best_model.h5'' = (None, demo_self, [LoadModel ''best_model.h5''])
   \<and> (class_index (returned (predict_image demo_env demo_self ''stop.png'')) = None) =
       (label (returned (predict_image demo_env demo_self ''stop.png'')) = ''Invalid image''
        \<or> label (returned (predict_image demo_env demo_self ''stop.png'')) =
            ''Prediction failed'')"
  by (intro conjI demo_init class_index_absent_iff_error_label [OF demo_init])

end
